theory Spec2Isabelle
  imports Main
begin

section \<open>The world outside the client\<close>

text \<open>
  The module \<^verbatim>\<open>riot_api.py\<close> talks to three things outside itself: the wall clock
  (\<^verbatim>\<open>datetime.now()\<close>, \<^verbatim>\<open>time.sleep\<close>), the HTTP transport (\<^verbatim>\<open>requests.get\<close>) and the
  logger. They are one record, \<open>world\<close>, threaded through every function.

  Time is counted in microseconds, the resolution of \<^verbatim>\<open>datetime\<close>, as an unbounded
  integer. The float that \<^verbatim>\<open>total_seconds()\<close> returns is read as the exact number of
  microseconds it stands for. The clock advances by sleeping only, and a sleep lasts
  exactly as long as asked.
\<close>

definition seconds :: "int \<Rightarrow> int" where
  "seconds n = n * 1000000"

definition minutes :: "int \<Rightarrow> int" where
  "minutes n = seconds (60 * n)"

datatype json =
    JNull
  | JBool bool
  | JNum int
  | JStr string
  | JList "json list"
  | JDict "(string \<times> json) list"

text \<open>
  The \<^verbatim>\<open>Retry-After\<close> header of a response, by what \<^verbatim>\<open>int(...)\<close> makes of it: the header
  is missing, its text reads as an integer, or \<^verbatim>\<open>int\<close> raises \<^verbatim>\<open>ValueError\<close> on it.
\<close>

datatype retry_after = Missing | IntText int | OtherText

text \<open>
  \<open>json_body\<close> is what \<^verbatim>\<open>response.json()\<close> gives: the parsed body, or the text of the
  decoding error that \<^verbatim>\<open>requests\<close> raises as a \<^verbatim>\<open>RequestException\<close>.
\<close>

record response =
  status_code :: int
  retry_after_header :: retry_after
  resp_text :: string
  json_body :: "string + json"

datatype outcome = Response response | Timeout | RequestException string

record request =
  req_url :: string
  req_headers :: "(string \<times> string) list"
  req_params :: "(string \<times> int) list option"
  req_timeout :: int

datatype level = DEBUG | INFO | WARNING | ERROR

datatype pyval = PStr string | PInt int

record log_record =
  levelname :: level
  msg :: string
  extra :: "(string \<times> pyval) list"

record world =
  clock :: int
  slept :: "int list"
  sent :: "request list"
  logged :: "log_record list"

text \<open>
  The exceptions that leave the functions of the module: its own \<^verbatim>\<open>RiotAPIError\<close> with its
  message, and the built-in ones by name.
\<close>

datatype error =
    RiotAPIError string
  | ValueError
  | IndexError
  | AttributeError
  | OverflowError
  | TypeError
  | KeyError

text \<open>
  \<^verbatim>\<open>time.sleep(d)\<close>, with \<open>d\<close> in microseconds. CPython turns the duration into a signed
  64-bit number of nanoseconds and raises \<^verbatim>\<open>OverflowError\<close> when it does not fit (about
  9.2e9 seconds); a duration that fits and is negative raises \<^verbatim>\<open>ValueError\<close>. \<open>advance\<close>
  is the world after a sleep that was carried out.
\<close>

definition sleep_max :: int where
  "sleep_max = (2 ^ 63 - 1) div 1000"

definition advance :: "int \<Rightarrow> world \<Rightarrow> world" where
  "advance d w = w\<lparr>clock := clock w + d, slept := slept w @ [d]\<rparr>"

definition sleep :: "int \<Rightarrow> world \<Rightarrow> error + world" where
  "sleep d w =
     (if d < - sleep_max \<or> sleep_max < d then Inl OverflowError
      else if d < 0 then Inl ValueError
      else Inr (advance d w))"

definition log :: "level \<Rightarrow> string \<Rightarrow> (string \<times> pyval) list \<Rightarrow> world \<Rightarrow> world" where
  "log l m e w = w\<lparr>logged := logged w @ [\<lparr>levelname = l, msg = m, extra = e\<rparr>]\<rparr>"

text \<open>
  The transport is a script: the outcome of the \<open>i\<close>-th call of \<^verbatim>\<open>requests.get\<close> made in
  this world, counted from 0. Every call is recorded in \<open>sent\<close>.
\<close>

definition requests_get :: "(nat \<Rightarrow> outcome) \<Rightarrow> request \<Rightarrow> world \<Rightarrow> outcome \<times> world" where
  "requests_get tr rq w = (tr (length (sent w)), w\<lparr>sent := sent w @ [rq]\<rparr>)"

text \<open>Python's \<^verbatim>\<open>str\<close> of an integer, as the f-strings of the module use it.\<close>

fun str_nat :: "nat \<Rightarrow> string" where
  "str_nat n =
     (if n < 10 then [''0123456789'' ! n]
      else str_nat (n div 10) @ [''0123456789'' ! (n mod 10)])"

declare str_nat.simps [simp del]

definition str_int :: "int \<Rightarrow> string" where
  "str_int i = (if i < 0 then CHR ''-'' # str_nat (nat (- i)) else str_nat (nat i))"

section \<open>RateLimiter\<close>

record RateLimiter =
  requests_per_second :: int
  requests_per_2min :: int
  second_requests :: "int list"
  two_min_requests :: "int list"

definition RateLimiter_init :: "int \<Rightarrow> int \<Rightarrow> RateLimiter" where
  "RateLimiter_init per_second per_2min =
     \<lparr>requests_per_second = per_second, requests_per_2min = per_2min,
      second_requests = [], two_min_requests = []\<rparr>"

text \<open>
  \<^verbatim>\<open>RateLimiter.wait_if_needed\<close>. \<^verbatim>\<open>self.second_requests[0]\<close> on an empty list raises
  \<^verbatim>\<open>IndexError\<close>, which happens when a cap is not positive; an exception leaves the
  windows as pruned so far and the world as it was when it was raised. The two log lines
  of the method (they print the sleep time only) are left out.
\<close>

definition wait_if_needed :: "RateLimiter \<Rightarrow> world \<Rightarrow> (error + unit) \<times> RateLimiter \<times> world" where
  "wait_if_needed self w =
     (let now = clock w;
          cutoff_2min = now - minutes 2;
          self1 = self\<lparr>two_min_requests := filter (\<lambda>ts. ts > cutoff_2min) (two_min_requests self)\<rparr>;
          cutoff_1sec = now - seconds 1;
          self2 = self1\<lparr>second_requests := filter (\<lambda>ts. ts > cutoff_1sec) (second_requests self1)\<rparr>
      in
      case (if int (length (second_requests self2)) \<ge> requests_per_second self2 then
              (if second_requests self2 = [] then Inl IndexError
               else
                 let sleep_time = seconds 1 - (now - hd (second_requests self2))
                 in if sleep_time > 0 then sleep sleep_time w else Inr w)
            else Inr w) of
        Inl e \<Rightarrow> (Inl e, self2, w)
      | Inr w1 \<Rightarrow>
          (case (if int (length (two_min_requests self2)) \<ge> requests_per_2min self2 then
                   (if two_min_requests self2 = [] then Inl IndexError
                    else
                      let sleep_time = seconds 120 - (now - hd (two_min_requests self2))
                      in if sleep_time > 0 then sleep sleep_time w1 else Inr w1)
                 else Inr w1) of
             Inl e \<Rightarrow> (Inl e, self2, w1)
           | Inr w2 \<Rightarrow>
               (let now' = clock w2
                in (Inr (),
                    self2\<lparr>second_requests := second_requests self2 @ [now'],
                          two_min_requests := two_min_requests self2 @ [now']\<rparr>,
                    w2))))"

section \<open>RiotAPI\<close>

record RiotAPI =
  api_key :: string
  region :: string
  max_retries :: int
  platform_url :: string
  regional_url :: string
  rate_limiter :: "RateLimiter option"
  headers :: "(string \<times> string) list"

definition PLATFORM_URLS :: "(string \<times> string) list" where
  "PLATFORM_URLS =
     [(''na1'', ''https://na1.api.riotgames.com''),
      (''euw1'', ''https://euw1.api.riotgames.com''),
      (''kr'', ''https://kr.api.riotgames.com''),
      (''br1'', ''https://br1.api.riotgames.com''),
      (''eun1'', ''https://eun1.api.riotgames.com''),
      (''jp1'', ''https://jp1.api.riotgames.com''),
      (''la1'', ''https://la1.api.riotgames.com''),
      (''la2'', ''https://la2.api.riotgames.com''),
      (''oc1'', ''https://oc1.api.riotgames.com''),
      (''tr1'', ''https://tr1.api.riotgames.com''),
      (''ru'', ''https://ru.api.riotgames.com'')]"

definition REGIONAL_URLS :: "(string \<times> string) list" where
  "REGIONAL_URLS =
     [(''americas'', ''https://americas.api.riotgames.com''),
      (''europe'', ''https://europe.api.riotgames.com''),
      (''asia'', ''https://asia.api.riotgames.com'')]"

definition PLATFORM_TO_REGION :: "(string \<times> string) list" where
  "PLATFORM_TO_REGION =
     [(''na1'', ''americas''), (''br1'', ''americas''), (''la1'', ''americas''),
      (''la2'', ''americas''),
      (''euw1'', ''europe''), (''eun1'', ''europe''), (''tr1'', ''europe''),
      (''ru'', ''europe''),
      (''kr'', ''asia''), (''jp1'', ''asia''), (''oc1'', ''asia'')]"

text \<open>
  The object that \<^verbatim>\<open>RiotAPI(api_key, region, rate_limit, max_retries)\<close> builds for a
  region code already in lower case (\<^verbatim>\<open>__init__\<close> lowers it first); \<open>None\<close> where
  \<^verbatim>\<open>__init__\<close> raises \<^verbatim>\<open>ValueError\<close> for an unknown region.
\<close>

definition RiotAPI_init :: "string \<Rightarrow> string \<Rightarrow> bool \<Rightarrow> int \<Rightarrow> RiotAPI option" where
  "RiotAPI_init key reg rate_limit retries =
     (case map_of PLATFORM_URLS reg of
        None \<Rightarrow> None
      | Some purl \<Rightarrow>
          (case map_of PLATFORM_TO_REGION reg of
             None \<Rightarrow> None
           | Some area \<Rightarrow>
               (case map_of REGIONAL_URLS area of
                  None \<Rightarrow> None
                | Some rurl \<Rightarrow>
                    Some \<lparr>api_key = key, region = reg, max_retries = retries,
                          platform_url = purl, regional_url = rurl,
                          rate_limiter = (if rate_limit then Some (RateLimiter_init 20 100) else None),
                          headers = [(''X-Riot-Token'', key), (''Accept'', ''application/json'')]\<rparr>)))"

text \<open>
  \<^verbatim>\<open>int(response.headers.get('Retry-After', 5))\<close>: the header read as a number of
  seconds, 5 when it is missing.
\<close>

definition retry_after_of :: "response \<Rightarrow> error + int" where
  "retry_after_of r =
     (case retry_after_header r of
        Missing \<Rightarrow> Inr 5
      | IntText n \<Rightarrow> Inr n
      | OtherText \<Rightarrow> Inl ValueError)"

text \<open>
  One pass through the body of the \<^verbatim>\<open>for attempt in range(self.max_retries)\<close> loop of
  \<^verbatim>\<open>_make_request\<close>: it returns, raises, or reaches \<^verbatim>\<open>continue\<close>.
  An exception of \<^verbatim>\<open>time.sleep\<close> or of \<^verbatim>\<open>int\<close>, like a \<^verbatim>\<open>RiotAPIError\<close> raised inside the
  \<^verbatim>\<open>try\<close>, is caught by neither \<^verbatim>\<open>except\<close> clause and leaves the method.
\<close>

datatype flow = Return json | Raise error | Continue

definition attempt_body ::
  "RiotAPI \<Rightarrow> (nat \<Rightarrow> outcome) \<Rightarrow> string \<Rightarrow> (string \<times> int) list option \<Rightarrow> nat \<Rightarrow> world
     \<Rightarrow> flow \<times> world" where
  "attempt_body self tr u ps attempt w =
     (case requests_get tr
             \<lparr>req_url = u, req_headers = headers self, req_params = ps, req_timeout = 10\<rparr> w of
        (Response r, w1) \<Rightarrow>
          if status_code r = 200 then
            (case json_body r of
               Inr j \<Rightarrow> (Return j, w1)
             | Inl e \<Rightarrow> (Raise (RiotAPIError (''Request failed: '' @ e)), w1))
          else if status_code r = 404 then
            (Raise (RiotAPIError (''Resource not found: '' @ u)), w1)
          else if status_code r = 403 then
            (Raise (RiotAPIError
                      (''Invalid API key or forbidden access. Response: '' @ resp_text r)),
             log ERROR ''API request failed: Invalid API key or forbidden access''
               [(''url'', PStr u),
                (''api_key'', PStr (take 10 (api_key self))),
                (''status_code'', PInt (status_code r)),
                (''response'', PStr (resp_text r))] w1)
          else if status_code r = 429 then
            (case retry_after_of r of
               Inl e \<Rightarrow> (Raise e, w1)
             | Inr retry_after \<Rightarrow>
                 let w2 = log WARNING
                            (''Rate limited. Waiting '' @ str_int retry_after @ ''s...'') [] w1
                 in (case sleep (seconds retry_after) w2 of
                       Inl e \<Rightarrow> (Raise e, w2)
                     | Inr w3 \<Rightarrow> (Continue, w3)))
          else if status_code r \<ge> 500 then
            (let w2 = log WARNING
                        (''Server error '' @ str_int (status_code r) @ ''. Attempt ''
                           @ str_int (int attempt + 1) @ ''/'' @ str_int (max_retries self))
                        [] w1
             in case sleep (seconds (2 ^ attempt)) w2 of
                  Inl e \<Rightarrow> (Raise e, w2)
                | Inr w3 \<Rightarrow> (Continue, w3))
          else
            (Raise (RiotAPIError
                      (''Unexpected status code '' @ str_int (status_code r) @ '': ''
                         @ resp_text r)), w1)
      | (Timeout, w1) \<Rightarrow>
          let w2 = log WARNING
                     (''Request timeout. Attempt '' @ str_int (int attempt + 1) @ ''/''
                        @ str_int (max_retries self)) [] w1
          in if int attempt < max_retries self - 1
             then (case sleep (seconds (2 ^ attempt)) w2 of
                     Inl e \<Rightarrow> (Raise e, w2)
                   | Inr w3 \<Rightarrow> (Continue, w3))
             else (Raise (RiotAPIError ''Request timed out after all retries''), w2)
      | (RequestException e, w1) \<Rightarrow>
          (Raise (RiotAPIError (''Request failed: '' @ e)), w1))"

text \<open>
  The loop itself, from the iteration \<open>attempt\<close> on, with the \<^verbatim>\<open>raise\<close> that follows it.
\<close>

function attempts ::
  "RiotAPI \<Rightarrow> (nat \<Rightarrow> outcome) \<Rightarrow> string \<Rightarrow> (string \<times> int) list option \<Rightarrow> nat \<Rightarrow> world
     \<Rightarrow> (error + json) \<times> world" where
  "attempts self tr u ps attempt w =
     (if int attempt < max_retries self then
        (case attempt_body self tr u ps attempt w of
           (Return j, w') \<Rightarrow> (Inr j, w')
         | (Raise e, w') \<Rightarrow> (Inl e, w')
         | (Continue, w') \<Rightarrow> attempts self tr u ps (Suc attempt) w')
      else
        (Inl (RiotAPIError (''Failed after '' @ str_int (max_retries self) @ '' attempts'')), w))"
  by pat_completeness auto
termination
  by (relation "measure (\<lambda>(self, tr, u, ps, attempt, w). nat (max_retries self) - attempt)") auto

declare attempts.simps [simp del]

text \<open>\<^verbatim>\<open>RiotAPI._make_request\<close>: the limiter once, then the loop.\<close>

definition make_request ::
  "RiotAPI \<Rightarrow> (nat \<Rightarrow> outcome) \<Rightarrow> string \<Rightarrow> (string \<times> int) list option \<Rightarrow> world
     \<Rightarrow> (error + json) \<times> RiotAPI \<times> world" where
  "make_request self tr u ps w =
     (case rate_limiter self of
        None \<Rightarrow> (case attempts self tr u ps 0 w of (r, w') \<Rightarrow> (r, self, w'))
      | Some rl \<Rightarrow>
          (case wait_if_needed rl w of
             (Inl e, rl', w') \<Rightarrow> (Inl e, self\<lparr>rate_limiter := Some rl'\<rparr>, w')
           | (Inr _, rl', w') \<Rightarrow>
               (case attempts self tr u ps 0 w' of
                  (r, w'') \<Rightarrow> (r, self\<lparr>rate_limiter := Some rl'\<rparr>, w''))))"

section \<open>Endpoint methods\<close>

text \<open>Python's rendering of \<^verbatim>\<open>type(result)\<close>; JSON numbers are integers here.\<close>

definition type_name :: "json \<Rightarrow> string" where
  "type_name j =
     (case j of
        JNull \<Rightarrow> ''NoneType''
      | JBool _ \<Rightarrow> ''bool''
      | JNum _ \<Rightarrow> ''int''
      | JStr _ \<Rightarrow> ''str''
      | JList _ \<Rightarrow> ''list''
      | JDict _ \<Rightarrow> ''dict'')"

definition type_repr :: "json \<Rightarrow> string" where
  "type_repr j = ''<class '' @ [CHR 0x27] @ type_name j @ [CHR 0x27] @ ''>''"

text \<open>
  \<^verbatim>\<open>RiotAPI.get_match_ids\<close>. \<open>match_ids_params\<close> is the \<^verbatim>\<open>params\<close> dictionary it builds,
  in insertion order; \<^verbatim>\<open>if queue:\<close> is false for \<^verbatim>\<open>None\<close> and for 0. \<open>match_ids_call\<close> is the
  body of the method for the two texts that its f-strings make of \<^verbatim>\<open>puuid\<close> and of
  \<^verbatim>\<open>puuid[:8]\<close>; for a string, as the signature has it, they are \<open>puuid\<close> and
  \<open>take 8 puuid\<close>.

  The error for a result that is not a list is built with \<^verbatim>\<open>__builtins__.type(result)\<close>.
  In CPython \<^verbatim>\<open>__builtins__\<close> is the builtins module only in the module run as
  \<^verbatim>\<open>__main__\<close>; in an imported module it is that module's dictionary, and the attribute
  access raises \<^verbatim>\<open>AttributeError\<close> before \<^verbatim>\<open>RiotAPIError\<close> is built. \<open>as_main\<close> says
  which of the two the running program is.
\<close>

definition match_ids_params :: "int \<Rightarrow> int \<Rightarrow> int option \<Rightarrow> int option \<Rightarrow> (string \<times> int) list" where
  "match_ids_params start count queue type =
     (let ps0 = [(''start'', start), (''count'', min count 100)];
          ps1 = (case queue of
                   None \<Rightarrow> ps0
                 | Some q \<Rightarrow> if q \<noteq> 0 then ps0 @ [(''queue'', q)] else ps0)
      in case type of None \<Rightarrow> ps1 | Some t \<Rightarrow> ps1 @ [(''type'', t)])"

definition match_ids_call ::
  "bool \<Rightarrow> RiotAPI \<Rightarrow> (nat \<Rightarrow> outcome) \<Rightarrow> string \<Rightarrow> string \<Rightarrow> int \<Rightarrow> int \<Rightarrow> int option
     \<Rightarrow> int option \<Rightarrow> world \<Rightarrow> (error + json list) \<times> RiotAPI \<times> world" where
  "match_ids_call as_main self tr puuid_text puuid_prefix start count queue type w =
     (let u = regional_url self @ ''/lol/match/v5/matches/by-puuid/'' @ puuid_text @ ''/ids'';
          ps2 = match_ids_params start count queue type;
          w0 = log INFO
                 (''Fetching match IDs for PUUID: '' @ puuid_prefix @ ''... (start=''
                    @ str_int start @ '', count='' @ str_int count @ '')'') [] w
      in case make_request self tr u (Some ps2) w0 of
           (Inl e, self', w') \<Rightarrow> (Inl e, self', w')
         | (Inr result, self', w') \<Rightarrow>
             (case result of
                JList ids \<Rightarrow> (Inr ids, self', w')
              | _ \<Rightarrow>
                  (Inl (if as_main
                        then RiotAPIError
                               (''Expected a list of match IDs, got: '' @ type_repr result)
                        else AttributeError),
                   self', w')))"

definition get_match_ids ::
  "bool \<Rightarrow> RiotAPI \<Rightarrow> (nat \<Rightarrow> outcome) \<Rightarrow> string \<Rightarrow> int \<Rightarrow> int \<Rightarrow> int option \<Rightarrow> int option
     \<Rightarrow> world \<Rightarrow> (error + json list) \<times> RiotAPI \<times> world" where
  "get_match_ids as_main self tr puuid start count queue type w =
     match_ids_call as_main self tr puuid (take 8 puuid) start count queue type w"

text \<open>
  \<^verbatim>\<open>RiotAPI.get_ranked_entries\<close>. The first warning ends with Python's rendering of the
  dictionary, which is not reproduced: the log record keeps the fixed part of the text.
\<close>

definition get_ranked_entries ::
  "RiotAPI \<Rightarrow> (nat \<Rightarrow> outcome) \<Rightarrow> string \<Rightarrow> world \<Rightarrow> (error + json list) \<times> RiotAPI \<times> world" where
  "get_ranked_entries self tr summoner_id w =
     (let u = platform_url self @ ''/lol/league/v4/entries/by-summoner/'' @ summoner_id
      in case make_request self tr u None w of
           (Inl e, self', w') \<Rightarrow> (Inl e, self', w')
         | (Inr result, self', w') \<Rightarrow>
             (case result of
                JList entries \<Rightarrow> (Inr entries, self', w')
              | JDict d \<Rightarrow>
                  (Inr [], self',
                   log WARNING ''Expected a list for ranked entries, got dict: '' [] w')
              | _ \<Rightarrow>
                  (Inr [], self',
                   log WARNING
                     (''Unexpected response type for ranked entries: '' @ type_repr result)
                     [] w')))"


text \<open>
  \<^verbatim>\<open>urllib.parse.quote\<close> with its default \<^verbatim>\<open>safe='/'\<close>, on the UTF-8 bytes of the text:
  letters, digits and \<^verbatim>\<open>_.-~/\<close> stay, every other byte becomes \<^verbatim>\<open>%XX\<close>.
\<close>

definition quote :: "string \<Rightarrow> string" where
  "quote s =
     concat (map (\<lambda>c.
        if c \<in> set ''ABCDEFGHIJKLMNOPQRSTUVWXYZabcdefghijklmnopqrstuvwxyz0123456789_.-~/''
        then [c]
        else [CHR ''%'', ''0123456789ABCDEF'' ! (of_char c div 16),
              ''0123456789ABCDEF'' ! (of_char c mod 16)]) s)"

text \<open>The six endpoint methods that return what \<^verbatim>\<open>_make_request\<close> returns.\<close>

definition get_account_by_riot_id ::
  "RiotAPI \<Rightarrow> (nat \<Rightarrow> outcome) \<Rightarrow> string \<Rightarrow> string \<Rightarrow> world \<Rightarrow> (error + json) \<times> RiotAPI \<times> world" where
  "get_account_by_riot_id self tr game_name tag_line w =
     (let u = regional_url self @ ''/riot/account/v1/accounts/by-riot-id/'' @ quote game_name
                @ ''/'' @ quote tag_line;
          w0 = log INFO (''Fetching account: '' @ game_name @ ''#'' @ tag_line) [] w
      in make_request self tr u None w0)"

definition get_summoner_by_name ::
  "RiotAPI \<Rightarrow> (nat \<Rightarrow> outcome) \<Rightarrow> string \<Rightarrow> world \<Rightarrow> (error + json) \<times> RiotAPI \<times> world" where
  "get_summoner_by_name self tr summoner_name w =
     (let u = platform_url self @ ''/lol/summoner/v4/summoners/by-name/'' @ quote summoner_name;
          w0 = log INFO (''Fetching summoner: '' @ summoner_name) [] w
      in make_request self tr u None w0)"

definition get_summoner_by_puuid ::
  "RiotAPI \<Rightarrow> (nat \<Rightarrow> outcome) \<Rightarrow> string \<Rightarrow> world \<Rightarrow> (error + json) \<times> RiotAPI \<times> world" where
  "get_summoner_by_puuid self tr puuid w =
     make_request self tr (platform_url self @ ''/lol/summoner/v4/summoners/by-puuid/'' @ puuid)
       None w"

definition get_match ::
  "RiotAPI \<Rightarrow> (nat \<Rightarrow> outcome) \<Rightarrow> string \<Rightarrow> world \<Rightarrow> (error + json) \<times> RiotAPI \<times> world" where
  "get_match self tr match_id w =
     (let u = regional_url self @ ''/lol/match/v5/matches/'' @ match_id;
          w0 = log INFO (''Fetching match: '' @ match_id) [] w
      in make_request self tr u None w0)"

definition get_match_timeline ::
  "RiotAPI \<Rightarrow> (nat \<Rightarrow> outcome) \<Rightarrow> string \<Rightarrow> world \<Rightarrow> (error + json) \<times> RiotAPI \<times> world" where
  "get_match_timeline self tr match_id w =
     make_request self tr (regional_url self @ ''/lol/match/v5/matches/'' @ match_id @ ''/timeline'')
       None w"

definition get_challenger_league ::
  "RiotAPI \<Rightarrow> (nat \<Rightarrow> outcome) \<Rightarrow> string \<Rightarrow> world \<Rightarrow> (error + json) \<times> RiotAPI \<times> world" where
  "get_challenger_league self tr queue w =
     make_request self tr (platform_url self @ ''/lol/league/v4/challengerleagues/by-queue/'' @ queue)
       None w"

section \<open>Utility methods\<close>

text \<open>
  The parsed body is untyped in Python, and \<^verbatim>\<open>get_player_recent_matches\<close> passes parts of
  it on as if they were strings. \<open>py_str\<close> stands for Python's \<^verbatim>\<open>str\<close> of a parsed value
  that is not a string; an f-string renders a string as it is. A JSON object is the
  association list of the dictionary \<^verbatim>\<open>json\<close> builds, its keys distinct.
\<close>

definition text_of :: "(json \<Rightarrow> string) \<Rightarrow> json \<Rightarrow> string" where
  "text_of py_str j = (case j of JStr s \<Rightarrow> s | _ \<Rightarrow> py_str j)"

text \<open>
  \<^verbatim>\<open>summoner['puuid']\<close>: \<^verbatim>\<open>KeyError\<close> for an object without the key, \<^verbatim>\<open>TypeError\<close> for a
  value that is not an object.
\<close>

definition subscript_puuid :: "json \<Rightarrow> error + json" where
  "subscript_puuid summoner =
     (case summoner of
        JDict d \<Rightarrow> (case map_of d ''puuid'' of None \<Rightarrow> Inl KeyError | Some v \<Rightarrow> Inr v)
      | _ \<Rightarrow> Inl TypeError)"

text \<open>
  The \<^verbatim>\<open>for i, match_id in enumerate(match_ids, 1)\<close> loop of
  \<^verbatim>\<open>get_player_recent_matches\<close>, from the \<open>i\<close>-th of \<open>n\<close> identifiers on, with the list
  \<open>matches\<close> collected so far. Only \<^verbatim>\<open>RiotAPIError\<close> is caught.
\<close>

fun fetch_matches ::
  "(json \<Rightarrow> string) \<Rightarrow> RiotAPI \<Rightarrow> (nat \<Rightarrow> outcome) \<Rightarrow> int \<Rightarrow> int \<Rightarrow> json list \<Rightarrow> json list \<Rightarrow> world
     \<Rightarrow> (error + json list) \<times> RiotAPI \<times> world" where
  "fetch_matches py_str self tr i n [] matches w = (Inr matches, self, w)"
| "fetch_matches py_str self tr i n (match_id # rest) matches w =
     (case get_match self tr (text_of py_str match_id)
             (log INFO (''Fetching match '' @ str_int i @ ''/'' @ str_int n) [] w) of
        (Inr match_data, self', w') \<Rightarrow>
          fetch_matches py_str self' tr (i + 1) n rest (matches @ [match_data]) w'
      | (Inl (RiotAPIError m), self', w') \<Rightarrow>
          fetch_matches py_str self' tr (i + 1) n rest matches
            (log ERROR
               (''Failed to fetch match '' @ text_of py_str match_id @ '': '' @ m) [] w')
      | (Inl e, self', w') \<Rightarrow> (Inl e, self', w'))"

text \<open>
  \<^verbatim>\<open>RiotAPI.get_player_recent_matches\<close>. A \<^verbatim>\<open>puuid\<close> that is a list is formatted into the
  URL and sliced for the log line; one that is neither a string nor a list makes
  \<^verbatim>\<open>puuid[:8]\<close> raise before anything is sent (\<^verbatim>\<open>TypeError\<close>; for an object, Python 3.12
  and later raise \<^verbatim>\<open>KeyError\<close> instead).
\<close>

definition get_player_recent_matches ::
  "(json \<Rightarrow> string) \<Rightarrow> bool \<Rightarrow> RiotAPI \<Rightarrow> (nat \<Rightarrow> outcome) \<Rightarrow> string \<Rightarrow> int \<Rightarrow> world
     \<Rightarrow> (error + json list) \<times> RiotAPI \<times> world" where
  "get_player_recent_matches py_str as_main self tr summoner_name count w =
     (case get_summoner_by_name self tr summoner_name w of
        (Inl e, self1, w1) \<Rightarrow> (Inl e, self1, w1)
      | (Inr summoner, self1, w1) \<Rightarrow>
          (case subscript_puuid summoner of
             Inl e \<Rightarrow> (Inl e, self1, w1)
           | Inr puuid \<Rightarrow>
               (case (case puuid of
                        JStr s \<Rightarrow> get_match_ids as_main self1 tr s 0 count None None w1
                      | JList xs \<Rightarrow>
                          match_ids_call as_main self1 tr (py_str puuid)
                            (py_str (JList (take 8 xs))) 0 count None None w1
                      | _ \<Rightarrow> (Inl TypeError, self1, w1)) of
                  (Inl e, self2, w2) \<Rightarrow> (Inl e, self2, w2)
                | (Inr match_ids, self2, w2) \<Rightarrow>
                    fetch_matches py_str self2 tr 1 (int (length match_ids)) match_ids [] w2)))"

text \<open>
  \<^verbatim>\<open>RiotAPI.test_connection\<close>. The two messages start with the seven bytes that the source
  file has there.
\<close>

definition test_connection ::
  "RiotAPI \<Rightarrow> (nat \<Rightarrow> outcome) \<Rightarrow> world \<Rightarrow> (error + bool) \<times> RiotAPI \<times> world" where
  "test_connection self tr w =
     (case get_account_by_riot_id self tr ''Doublelift'' ''NA1'' w of
        (Inr account, self', w') \<Rightarrow>
          (Inr True, self',
           log INFO
             ([CHR 0xE2, CHR 0x80, CHR 0x9A, CHR 0xC3, CHR 0xBA, CHR 0xC3, CHR 0x96]
                @ '' API connection test successful'') [] w')
      | (Inl (RiotAPIError m), self', w') \<Rightarrow>
          (Inr False, self',
           log ERROR
             ([CHR 0xE2, CHR 0x80, CHR 0x9A, CHR 0xC3, CHR 0xB9, CHR 0xC3, CHR 0xA5]
                @ '' API connection test failed: '' @ m) [] w')
      | (Inl e, self', w') \<Rightarrow> (Inl e, self', w'))"

section \<open>Mock transports and sample inputs\<close>

text \<open>
  A mocked transport: the listed outcomes in order, one per call, then \<open>rest\<close> for ever.
\<close>

definition script :: "outcome list \<Rightarrow> outcome \<Rightarrow> nat \<Rightarrow> outcome" where
  "script outs rest i = (if i < length outs then outs ! i else rest)"

text \<open>A response whose body is not JSON, and a 200 response with a parsed body.\<close>

definition status_reply :: "int \<Rightarrow> retry_after \<Rightarrow> string \<Rightarrow> response" where
  "status_reply code hdr body =
     \<lparr>status_code = code, retry_after_header = hdr, resp_text = body,
      json_body = Inl ''Expecting value: line 1 column 1 (char 0)''\<rparr>"

definition json_reply :: "json \<Rightarrow> response" where
  "json_reply j =
     \<lparr>status_code = 200, retry_after_header = Missing, resp_text = [], json_body = Inr j\<rparr>"

definition world0 :: world where
  "world0 = \<lparr>clock = 0, slept = [], sent = [], logged = []\<rparr>"

text \<open>The client \<^verbatim>\<open>RiotAPI(key, 'na1', rate_limit, retries)\<close>, field by field.\<close>

definition na1_client :: "string \<Rightarrow> bool \<Rightarrow> int \<Rightarrow> RiotAPI" where
  "na1_client key rate_limit retries =
     \<lparr>api_key = key, region = ''na1'', max_retries = retries,
      platform_url = ''https://na1.api.riotgames.com'',
      regional_url = ''https://americas.api.riotgames.com'',
      rate_limiter = (if rate_limit then Some (RateLimiter_init 20 100) else None),
      headers = [(''X-Riot-Token'', key), (''Accept'', ''application/json'')]\<rparr>"

text \<open>
  A limiter with caps 2 per second and 3 per two minutes that has recorded requests at
  0.1 s, 0.5 s and 0.9 s, and a world whose clock reads \<open>t\<close> microseconds.
\<close>

definition busy_limiter :: RateLimiter where
  "busy_limiter =
     \<lparr>requests_per_second = 2, requests_per_2min = 3,
      second_requests = [100000, 500000, 900000],
      two_min_requests = [100000, 500000, 900000]\<rparr>"

definition world_at :: "int \<Rightarrow> world" where
  "world_at t = \<lparr>clock = t, slept = [], sent = [], logged = []\<rparr>"


text \<open>A client whose limiter is the busy one.\<close>

definition busy_client :: RiotAPI where
  "busy_client = (na1_client ''RGAPI-key'' True 3)\<lparr>rate_limiter := Some busy_limiter\<rparr>"

section \<open>Facts about the world and the loop\<close>

lemma RiotAPI_init_na1: "RiotAPI_init key ''na1'' rate_limit retries = Some (na1_client key rate_limit retries)"
  by (simp add: RiotAPI_init_def na1_client_def PLATFORM_URLS_def PLATFORM_TO_REGION_def
        REGIONAL_URLS_def)

lemma sent_advance [simp]: "sent (advance d w) = sent w"
  and slept_advance [simp]: "slept (advance d w) = slept w @ [d]"
  and clock_advance [simp]: "clock (advance d w) = clock w + d"
  and logged_advance [simp]: "logged (advance d w) = logged w"
  by (simp_all add: advance_def)

lemma sent_log [simp]: "sent (log l m e w) = sent w"
  and slept_log [simp]: "slept (log l m e w) = slept w"
  and clock_log [simp]: "clock (log l m e w) = clock w"
  and logged_log [simp]: "logged (log l m e w) = logged w @ [\<lparr>levelname = l, msg = m, extra = e\<rparr>]"
  by (simp_all add: log_def)

lemma sleep_ok: "0 \<le> d \<Longrightarrow> d \<le> sleep_max \<Longrightarrow> sleep d w = Inr (advance d w)"
  by (simp add: sleep_def sleep_max_def)

lemma sleep_Inr: "sleep d w = Inr w' \<Longrightarrow> w' = advance d w"
  by (simp add: sleep_def split: if_splits)

lemma seconds_le_sleep_max: "d \<le> 9223372036 \<Longrightarrow> seconds d \<le> sleep_max"
  by (simp add: seconds_def sleep_max_def)

lemma attempt_body_sent:
  "sent (snd (attempt_body self tr u ps a w)) =
     sent w @ [\<lparr>req_url = u, req_headers = headers self, req_params = ps, req_timeout = 10\<rparr>]"
  by (auto simp: attempt_body_def requests_get_def Let_def
           split: outcome.splits sum.splits dest!: sleep_Inr)

lemma attempts_Return:
  "int a < max_retries self \<Longrightarrow> attempt_body self tr u ps a w = (Return j, w')
     \<Longrightarrow> attempts self tr u ps a w = (Inr j, w')"
  by (simp add: attempts.simps)

lemma attempts_Raise:
  "int a < max_retries self \<Longrightarrow> attempt_body self tr u ps a w = (Raise e, w')
     \<Longrightarrow> attempts self tr u ps a w = (Inl e, w')"
  by (simp add: attempts.simps)

lemma attempts_Continue:
  "int a < max_retries self \<Longrightarrow> attempt_body self tr u ps a w = (Continue, w')
     \<Longrightarrow> attempts self tr u ps a w = attempts self tr u ps (Suc a) w'"
  by (simp add: attempts.simps)

lemma attempts_exhausted:
  "\<not> int a < max_retries self \<Longrightarrow>
     attempts self tr u ps a w =
       (Inl (RiotAPIError (''Failed after '' @ str_int (max_retries self) @ '' attempts'')), w)"
  by (simp add: attempts.simps)

text \<open>
  Whatever the transport answers, the loop sends one and the same request, and at most
  as many times as there are attempts left.
\<close>

lemma attempts_sent:
  "\<exists>k \<le> nat (max_retries self) - a.
     sent (snd (attempts self tr u ps a w)) =
       sent w @ replicate k \<lparr>req_url = u, req_headers = headers self, req_params = ps, req_timeout = 10\<rparr>"
proof (induction self tr u ps a w rule: attempts.induct)
  case (1 self tr u ps attempt w)
  let ?rq = "\<lparr>req_url = u, req_headers = headers self, req_params = ps, req_timeout = 10\<rparr>"
  show ?case
  proof (cases "int attempt < max_retries self")
    case False
    then have "sent (snd (attempts self tr u ps attempt w)) = sent w @ replicate 0 ?rq"
      by (simp add: attempts_exhausted)
    then show ?thesis by blast
  next
    case True
    then have pos: "Suc 0 \<le> nat (max_retries self) - attempt" by linarith
    obtain f w' where b: "attempt_body self tr u ps attempt w = (f, w')"
      by (cases "attempt_body self tr u ps attempt w")
    from attempt_body_sent [of self tr u ps attempt w] b
    have s: "sent w' = sent w @ [?rq]" by simp
    show ?thesis
    proof (cases f)
      case (Return j)
      with True b s have "sent (snd (attempts self tr u ps attempt w)) = sent w @ replicate (Suc 0) ?rq"
        by (simp add: attempts_Return)
      with pos show ?thesis by blast
    next
      case (Raise e)
      with True b s have "sent (snd (attempts self tr u ps attempt w)) = sent w @ replicate (Suc 0) ?rq"
        by (simp add: attempts_Raise)
      with pos show ?thesis by blast
    next
      case Continue
      from "1.IH" [OF True b [symmetric] Continue]
      obtain k where k: "k \<le> nat (max_retries self) - Suc attempt"
        and "sent (snd (attempts self tr u ps (Suc attempt) w')) = sent w' @ replicate k ?rq"
        by blast
      with True b s Continue
      have "sent (snd (attempts self tr u ps attempt w)) = sent w @ replicate (Suc k) ?rq"
        by (simp add: attempts_Continue)
      moreover from k True have "Suc k \<le> nat (max_retries self) - attempt" by linarith
      ultimately show ?thesis by blast
    qed
  qed
qed


lemma wait_if_needed_sent: "sent (snd (snd (wait_if_needed rl w))) = sent w"
  by (auto simp: wait_if_needed_def Let_def split: sum.splits if_splits dest!: sleep_Inr)

lemma make_request_None:
  "rate_limiter self = None \<Longrightarrow>
     make_request self tr u ps w =
       (fst (attempts self tr u ps 0 w), self, snd (attempts self tr u ps 0 w))"
  by (simp add: make_request_def split: prod.splits)

lemma make_request_Some:
  "rate_limiter self = Some rl \<Longrightarrow> fst (wait_if_needed rl w) = Inr () \<Longrightarrow>
     make_request self tr u ps w =
       (fst (attempts self tr u ps 0 (snd (snd (wait_if_needed rl w)))),
        self\<lparr>rate_limiter := Some (fst (snd (wait_if_needed rl w)))\<rparr>,
        snd (attempts self tr u ps 0 (snd (snd (wait_if_needed rl w)))))"
  by (cases "wait_if_needed rl w") (simp add: make_request_def split: prod.splits)

lemma make_request_raises:
  "rate_limiter self = Some rl \<Longrightarrow> fst (wait_if_needed rl w) = Inl e \<Longrightarrow>
     make_request self tr u ps w =
       (Inl e, self\<lparr>rate_limiter := Some (fst (snd (wait_if_needed rl w)))\<rparr>,
        snd (snd (wait_if_needed rl w)))"
  by (cases "wait_if_needed rl w") (simp add: make_request_def split: prod.splits)


section \<open>Terminal responses and timeouts\<close>

lemma attempt_body_404:
  "tr (length (sent w)) = Response r \<Longrightarrow> status_code r = 404 \<Longrightarrow>
     attempt_body self tr u ps a w =
       (Raise (RiotAPIError (''Resource not found: '' @ u)),
        w\<lparr>sent := sent w @ [\<lparr>req_url = u, req_headers = headers self, req_params = ps,
                               req_timeout = 10\<rparr>]\<rparr>)"
  by (simp add: attempt_body_def requests_get_def)

lemma attempts_404:
  assumes "int a < max_retries self"
      and "tr (length (sent w)) = Response r"
      and "status_code r = 404"
  shows "attempts self tr u ps a w =
           (Inl (RiotAPIError (''Resource not found: '' @ u)),
            w\<lparr>sent := sent w @ [\<lparr>req_url = u, req_headers = headers self, req_params = ps,
                                   req_timeout = 10\<rparr>]\<rparr>)"
  by (rule attempts_Raise [OF assms(1) attempt_body_404 [where tr = tr and w = w, OF assms(2,3)]])

text \<open>
  C9. When the first answer to a call of \<^verbatim>\<open>_make_request\<close> is a 404, the call raises the
  not-found error at once. Without a limiter the world changes by the one request sent
  and nothing else. With a limiter that lets the call through, the world after the
  limiter changes by the one request sent: nothing is slept beyond what the limiter
  slept, and no second request follows. Inside the loop the same holds at every attempt,
  whatever is left of the retry budget.
\<close>

theorem not_found_is_terminal:
  assumes "0 < max_retries self"
      and "tr (length (sent w)) = Response r"
      and "status_code r = 404"
  shows "(rate_limiter self = None \<longrightarrow>
            make_request self tr u ps w =
              (Inl (RiotAPIError (''Resource not found: '' @ u)), self,
               w\<lparr>sent := sent w @ [\<lparr>req_url = u, req_headers = headers self,
                                      req_params = ps, req_timeout = 10\<rparr>]\<rparr>))
       \<and> (\<forall>rl. rate_limiter self = Some rl \<and> fst (wait_if_needed rl w) = Inr () \<longrightarrow>
            make_request self tr u ps w =
              (Inl (RiotAPIError (''Resource not found: '' @ u)),
               self\<lparr>rate_limiter := Some (fst (snd (wait_if_needed rl w)))\<rparr>,
               (snd (snd (wait_if_needed rl w)))
                 \<lparr>sent := sent w @ [\<lparr>req_url = u, req_headers = headers self,
                                     req_params = ps, req_timeout = 10\<rparr>]\<rparr>))
       \<and> (\<forall>a w'. int a < max_retries self \<and> tr (length (sent w')) = Response r \<longrightarrow>
            attempts self tr u ps a w' =
              (Inl (RiotAPIError (''Resource not found: '' @ u)),
               w'\<lparr>sent := sent w' @ [\<lparr>req_url = u, req_headers = headers self,
                                       req_params = ps, req_timeout = 10\<rparr>]\<rparr>))"
proof (intro conjI allI impI)
  from assms(1) have z: "int 0 < max_retries self" by simp
  {
    assume "rate_limiter self = None"
    then show "make_request self tr u ps w =
              (Inl (RiotAPIError (''Resource not found: '' @ u)), self,
               w\<lparr>sent := sent w @ [\<lparr>req_url = u, req_headers = headers self,
                                      req_params = ps, req_timeout = 10\<rparr>]\<rparr>)"
      by (simp add: make_request_None attempts_404 [where tr = tr and w = w, OF z assms(2,3)])
  }
  {
    fix rl
    assume l: "rate_limiter self = Some rl \<and> fst (wait_if_needed rl w) = Inr ()"
    let ?w1 = "snd (snd (wait_if_needed rl w))"
    have s: "sent ?w1 = sent w" by (rule wait_if_needed_sent)
    with assms(2) have t: "tr (length (sent ?w1)) = Response r" by simp
    from l show "make_request self tr u ps w =
              (Inl (RiotAPIError (''Resource not found: '' @ u)),
               self\<lparr>rate_limiter := Some (fst (snd (wait_if_needed rl w)))\<rparr>,
               ?w1\<lparr>sent := sent w @ [\<lparr>req_url = u, req_headers = headers self,
                                     req_params = ps, req_timeout = 10\<rparr>]\<rparr>)"
      by (simp add: make_request_Some attempts_404 [where tr = tr and w = ?w1, OF z t assms(3)] s)
  }
  {
    fix a and w' :: world
    assume "int a < max_retries self \<and> tr (length (sent w')) = Response r"
    then show "attempts self tr u ps a w' =
              (Inl (RiotAPIError (''Resource not found: '' @ u)),
               w'\<lparr>sent := sent w' @ [\<lparr>req_url = u, req_headers = headers self,
                                       req_params = ps, req_timeout = 10\<rparr>]\<rparr>)"
      using assms(3) by (simp add: attempts_404)
  }
qed


lemma busy_wait:
  "fst (wait_if_needed busy_limiter (world_at 1200000)) = Inr ()"
  "slept (snd (snd (wait_if_needed busy_limiter (world_at 1200000)))) = [300000, 118900000]"
  "clock (snd (snd (wait_if_needed busy_limiter (world_at 1200000)))) = 120400000"
  by (simp_all add: wait_if_needed_def busy_limiter_def world_at_def Let_def seconds_def
        minutes_def sleep_def sleep_max_def)

theorem not_found_is_terminal_witness:
  "0 < max_retries busy_client
   \<and> script [] (Response (status_reply 404 Missing ''not found''))
         (length (sent (world_at 1200000)))
       = Response (status_reply 404 Missing ''not found'')
   \<and> status_code (status_reply 404 Missing ''not found'') = 404
   \<and> rate_limiter busy_client = Some busy_limiter
   \<and> fst (wait_if_needed busy_limiter (world_at 1200000)) = Inr ()
   \<and> fst (make_request busy_client
            (script [] (Response (status_reply 404 Missing ''not found'')))
            ''https://na1.api.riotgames.com/x'' None (world_at 1200000))
       = Inl (RiotAPIError ''Resource not found: https://na1.api.riotgames.com/x'')
   \<and> slept (snd (snd (make_request busy_client
            (script [] (Response (status_reply 404 Missing ''not found'')))
            ''https://na1.api.riotgames.com/x'' None (world_at 1200000))))
       = [300000, 118900000]
   \<and> length (sent (snd (snd (make_request busy_client
            (script [] (Response (status_reply 404 Missing ''not found'')))
            ''https://na1.api.riotgames.com/x'' None (world_at 1200000)))))
       = 1"
proof -
  let ?tr = "script [] (Response (status_reply 404 Missing ''not found''))"
  have h1: "0 < max_retries busy_client" by (simp add: busy_client_def na1_client_def)
  have h2: "?tr (length (sent (world_at 1200000))) = Response (status_reply 404 Missing ''not found'')"
    by (simp add: script_def)
  have h3: "status_code (status_reply 404 Missing ''not found'') = 404"
    by (simp add: status_reply_def)
  have h4: "rate_limiter busy_client = Some busy_limiter" by (simp add: busy_client_def)
  note t = not_found_is_terminal
             [where tr = ?tr and w = "world_at 1200000"
                and u = "''https://na1.api.riotgames.com/x''" and ps = None,
              OF h1 h2 h3, THEN conjunct2, THEN conjunct1, rule_format, of busy_limiter]
  have m: "make_request busy_client ?tr ''https://na1.api.riotgames.com/x'' None (world_at 1200000) =
      (Inl (RiotAPIError (''Resource not found: '' @ ''https://na1.api.riotgames.com/x'')),
       busy_client\<lparr>rate_limiter := Some (fst (snd (wait_if_needed busy_limiter (world_at 1200000))))\<rparr>,
       (snd (snd (wait_if_needed busy_limiter (world_at 1200000))))
         \<lparr>sent := sent (world_at 1200000) @
              [\<lparr>req_url = ''https://na1.api.riotgames.com/x'', req_headers = headers busy_client,
                req_params = None, req_timeout = 10\<rparr>]\<rparr>)"
    using t h4 busy_wait(1) by blast
  have s0: "sent (world_at 1200000) = []" by (simp add: world_at_def)
  from h1 h2 h3 h4 busy_wait show ?thesis unfolding m by (simp add: s0)
qed






lemma attempt_body_403:
  "tr (length (sent w)) = Response r \<Longrightarrow> status_code r = 403 \<Longrightarrow>
     attempt_body self tr u ps a w =
       (Raise (RiotAPIError (''Invalid API key or forbidden access. Response: '' @ resp_text r)),
        log ERROR ''API request failed: Invalid API key or forbidden access''
          [(''url'', PStr u),
           (''api_key'', PStr (take 10 (api_key self))),
           (''status_code'', PInt (status_code r)),
           (''response'', PStr (resp_text r))]
          (w\<lparr>sent := sent w @ [\<lparr>req_url = u, req_headers = headers self, req_params = ps,
                                 req_timeout = 10\<rparr>]\<rparr>))"
  by (simp add: attempt_body_def requests_get_def)

section \<open>The limiter inside the dispatcher\<close>

lemma wait_if_needed_two_min_length:
  "length (two_min_requests (fst (snd (wait_if_needed rl w)))) \<le> Suc (length (two_min_requests rl))"
  by (auto simp: wait_if_needed_def Let_def le_SucI split: sum.splits if_splits)

text \<open>
  C2, as the claim states it, fails. A client with rate limiting on, \<open>max_retries = 3\<close>,
  and a transport that answers 503, 503, 200: three requests are sent, and the limiter
  has recorded one acquisition, at the clock value of the call's start.
\<close>

theorem limiter_per_attempt_counterexample:
  "(case make_request (na1_client ''RGAPI-key'' True 3)
           (script [Response (status_reply 503 Missing ''Service Unavailable''),
                    Response (status_reply 503 Missing ''Service Unavailable'')]
              (Response (json_reply (JDict [(''puuid'', JStr ''abc'')]))))
           ''https://na1.api.riotgames.com/x'' None world0 of
      (res, self', w') \<Rightarrow>
        res = Inr (JDict [(''puuid'', JStr ''abc'')])
        \<and> length (sent w') = 3
        \<and> slept w' = [seconds 1, seconds 2]
        \<and> map_option two_min_requests (rate_limiter self') = Some [0]
        \<and> map_option second_requests (rate_limiter self') = Some [0])"
  by code_simp

text \<open>
  C2, amended. With rate limiting on, \<^verbatim>\<open>_make_request\<close> calls \<^verbatim>\<open>wait_if_needed\<close> once,
  before the loop, and never again: whatever the transport answers and however many
  attempts follow, the limiter the client holds afterwards is the one that a single
  \<^verbatim>\<open>wait_if_needed\<close> at the start of the call leaves, so its long window has grown by
  one timestamp at most.
\<close>

theorem limiter_runs_once_per_call:
  assumes "rate_limiter self = Some rl"
  shows "rate_limiter (fst (snd (make_request self tr u ps w)))
           = Some (fst (snd (wait_if_needed rl w)))
         \<and> length (two_min_requests (fst (snd (wait_if_needed rl w))))
             \<le> Suc (length (two_min_requests rl))"
proof -
  obtain res rl' w' where lim: "wait_if_needed rl w = (res, rl', w')"
    by (cases "wait_if_needed rl w") auto
  have "rate_limiter (fst (snd (make_request self tr u ps w))) = Some rl'"
    using assms lim
    by (cases res; cases "attempts self tr u ps 0 w'") (simp_all add: make_request_def)
  with lim wait_if_needed_two_min_length [of rl w] show ?thesis by simp
qed

theorem limiter_runs_once_per_call_witness:
  "rate_limiter (na1_client ''RGAPI-key'' True 3) = Some (RateLimiter_init 20 100)
   \<and> rate_limiter (fst (snd (make_request (na1_client ''RGAPI-key'' True 3)
        (script [] (Response (status_reply 503 Missing ''Service Unavailable'')))
        ''https://na1.api.riotgames.com/x'' None world0)))
      = Some \<lparr>requests_per_second = 20, requests_per_2min = 100,
              second_requests = [0], two_min_requests = [0]\<rparr>"
proof -
  have h: "rate_limiter (na1_client ''RGAPI-key'' True 3) = Some (RateLimiter_init 20 100)"
    by (simp add: na1_client_def)
  have once: "fst (snd (wait_if_needed (RateLimiter_init 20 100) world0))
      = \<lparr>requests_per_second = 20, requests_per_2min = 100,
         second_requests = [0], two_min_requests = [0]\<rparr>"
    by (simp add: wait_if_needed_def RateLimiter_init_def world0_def Let_def)
  from limiter_runs_once_per_call [where w = world0, OF h, THEN conjunct1] once h
  show ?thesis by simp
qed

section \<open>Server errors\<close>

text \<open>
  C3. \<open>max_retries = 3\<close> and a transport that answers 503 to every request: the call
  sends three requests and sleeps 1 s, 2 s and 4 s, the last of them after the final
  attempt, before it raises "Failed after 3 attempts". The branch for status codes from
  500 on sleeps unconditionally; the timeout branch tests \<^verbatim>\<open>attempt < max_retries - 1\<close>
  first.
\<close>

theorem server_error_sleeps_after_final_attempt:
  "(case make_request (na1_client ''RGAPI-key'' True 3)
           (script [] (Response (status_reply 503 Missing ''Service Unavailable'')))
           ''https://na1.api.riotgames.com/x'' None world0 of
      (res, self', w') \<Rightarrow>
        res = Inl (RiotAPIError ''Failed after 3 attempts'')
        \<and> slept w' = [seconds 1, seconds 2, seconds 4]
        \<and> length (sent w') = 3
        \<and> clock w' = seconds 7)"
  by code_simp


section \<open>The credential in errors and diagnostics\<close>

text \<open>
  C5, as the claim states it, fails. The error for a 403 quotes the response body, and so
  does the log record. When the body names the token that was refused, the error message
  and the log record both hold the whole key.
\<close>

theorem forbidden_echo_counterexample:
  "(case make_request (na1_client ''RGAPI-0123-4567-89ab'' True 3)
           (script [] (Response (status_reply 403 Missing ''Forbidden: RGAPI-0123-4567-89ab'')))
           ''https://na1.api.riotgames.com/x'' None world0 of
      (res, self', w') \<Rightarrow>
        res = Inl (RiotAPIError
                     (''Invalid API key or forbidden access. Response: Forbidden: ''
                        @ api_key (na1_client ''RGAPI-0123-4567-89ab'' True 3)))
        \<and> map extra (logged w') =
            [[(''url'', PStr ''https://na1.api.riotgames.com/x''),
              (''api_key'', PStr ''RGAPI-0123''),
              (''status_code'', PInt 403),
              (''response'',
                 PStr (''Forbidden: '' @ api_key (na1_client ''RGAPI-0123-4567-89ab'' True 3)))]])"
  by code_simp

text \<open>
  C5, amended. On a 403 the dispatcher itself puts no part of the key into the error: the
  message is the fixed text followed by the response body, the same for every key and
  every set of headers, so it holds the key only where that text already does. The one
  log record written carries the first 10 characters of the key (the whole key when it
  is no longer than that), next to the URL, the status code and the response body.
\<close>

theorem forbidden_error_independent_of_key:
  assumes "int a < max_retries self"
      and "tr (length (sent w)) = Response r"
      and "status_code r = 403"
  shows "fst (attempts self tr u ps a w) =
           Inl (RiotAPIError (''Invalid API key or forbidden access. Response: '' @ resp_text r))
         \<and> fst (attempts (self\<lparr>api_key := k, headers := h\<rparr>) tr u ps a w) =
             fst (attempts self tr u ps a w)
         \<and> logged (snd (attempts self tr u ps a w)) =
             logged w @
               [\<lparr>levelname = ERROR,
                 msg = ''API request failed: Invalid API key or forbidden access'',
                 extra = [(''url'', PStr u),
                          (''api_key'', PStr (take 10 (api_key self))),
                          (''status_code'', PInt 403),
                          (''response'', PStr (resp_text r))]\<rparr>]
         \<and> length (take 10 (api_key self)) \<le> 10"
proof -
  note b = attempt_body_403 [where tr = tr and w = w, OF assms(2,3)]
  have one: "attempts self tr u ps a w =
      (Inl (RiotAPIError (''Invalid API key or forbidden access. Response: '' @ resp_text r)),
       log ERROR ''API request failed: Invalid API key or forbidden access''
          [(''url'', PStr u),
           (''api_key'', PStr (take 10 (api_key self))),
           (''status_code'', PInt (status_code r)),
           (''response'', PStr (resp_text r))]
          (w\<lparr>sent := sent w @ [\<lparr>req_url = u, req_headers = headers self, req_params = ps,
                                 req_timeout = 10\<rparr>]\<rparr>))"
    by (rule attempts_Raise [OF assms(1) b])
  have lt: "int a < max_retries (self\<lparr>api_key := k, headers := h\<rparr>)"
    using assms(1) by simp
  have other: "fst (attempts (self\<lparr>api_key := k, headers := h\<rparr>) tr u ps a w) =
      Inl (RiotAPIError (''Invalid API key or forbidden access. Response: '' @ resp_text r))"
    by (simp add: attempts_Raise [OF lt attempt_body_403 [where tr = tr and w = w, OF assms(2,3)]])
  from one other assms(3) show ?thesis by simp
qed

theorem forbidden_error_independent_of_key_witness:
  "int 0 < max_retries (na1_client ''RGAPI-0123-4567-89ab'' False 3)
   \<and> script [] (Response (status_reply 403 Missing ''Forbidden'')) (length (sent world0))
       = Response (status_reply 403 Missing ''Forbidden'')
   \<and> status_code (status_reply 403 Missing ''Forbidden'') = 403
   \<and> fst (attempts (na1_client ''RGAPI-0123-4567-89ab'' False 3)
            (script [] (Response (status_reply 403 Missing ''Forbidden'')))
            ''https://na1.api.riotgames.com/x'' None 0 world0)
       = Inl (RiotAPIError ''Invalid API key or forbidden access. Response: Forbidden'')
   \<and> map extra (logged (snd (attempts (na1_client ''RGAPI-0123-4567-89ab'' False 3)
            (script [] (Response (status_reply 403 Missing ''Forbidden'')))
            ''https://na1.api.riotgames.com/x'' None 0 world0)))
       = [[(''url'', PStr ''https://na1.api.riotgames.com/x''),
           (''api_key'', PStr ''RGAPI-0123''),
           (''status_code'', PInt 403),
           (''response'', PStr ''Forbidden'')]]"
proof -
  let ?c = "na1_client ''RGAPI-0123-4567-89ab'' False 3"
  let ?r = "status_reply 403 Missing ''Forbidden''"
  have h1: "int 0 < max_retries ?c" by (simp add: na1_client_def)
  have h2: "script [] (Response ?r) (length (sent world0)) = Response ?r"
    by (simp add: script_def)
  have h3: "status_code ?r = 403" by (simp add: status_reply_def)
  have k: "take 10 (api_key ?c) = ''RGAPI-0123''" by (simp add: na1_client_def)
  have t: "resp_text ?r = ''Forbidden''" by (simp add: status_reply_def)
  have l: "logged world0 = []" by (simp add: world0_def)
  note c = forbidden_error_independent_of_key
             [where tr = "script [] (Response ?r)" and w = world0
                and u = "''https://na1.api.riotgames.com/x''" and ps = None,
              OF h1 h2 h3, unfolded k t l]
  from h1 h2 h3 c show ?thesis by simp
qed


section \<open>The dispatcher and the rate-limit response\<close>

lemma attempt_body_429:
  assumes "tr (length (sent w)) = Response r" and "status_code r = 429"
      and "retry_after_of r = Inr d" and "0 \<le> d" and "d \<le> 9223372036"
  shows "attempt_body self tr u ps a w =
       (Continue,
        advance (seconds d)
          (log WARNING (''Rate limited. Waiting '' @ str_int d @ ''s...'') []
             (w\<lparr>sent := sent w @ [\<lparr>req_url = u, req_headers = headers self, req_params = ps,
                                    req_timeout = 10\<rparr>]\<rparr>)))"
proof -
  from assms(4) have "0 \<le> seconds d" by (simp add: seconds_def)
  with seconds_le_sleep_max [OF assms(5)]
  have "\<And>w'. sleep (seconds d) w' = Inr (advance (seconds d) w')" by (simp add: sleep_ok)
  with assms(1-3) show ?thesis by (simp add: attempt_body_def requests_get_def)
qed

text \<open>Whatever the transport answers, a call sends at most \<open>max_retries\<close> requests.\<close>

lemma make_request_sent:
  "\<exists>k \<le> nat (max_retries self).
     sent (snd (snd (make_request self tr u ps w))) =
       sent w @ replicate k \<lparr>req_url = u, req_headers = headers self, req_params = ps, req_timeout = 10\<rparr>"
proof (cases "rate_limiter self")
  case None
  from attempts_sent [of self 0 tr u ps w] None show ?thesis
    by (simp add: make_request_None)
next
  case (Some rl)
  let ?rq = "\<lparr>req_url = u, req_headers = headers self, req_params = ps, req_timeout = 10\<rparr>"
  show ?thesis
  proof (cases "fst (wait_if_needed rl w)")
    case (Inl e)
    from make_request_raises [OF Some Inl]
    have "sent (snd (snd (make_request self tr u ps w))) = sent w @ replicate 0 ?rq"
      by (simp add: wait_if_needed_sent)
    then show ?thesis by blast
  next
    case (Inr x)
    then have ok: "fst (wait_if_needed rl w) = Inr ()" by simp
    from attempts_sent [of self 0 tr u ps "snd (snd (wait_if_needed rl w))"]
    show ?thesis by (simp add: make_request_Some [OF Some ok] wait_if_needed_sent)
  qed
qed

text \<open>
  C1, as the claim states it, fails. With \<open>max_retries = 2\<close> and a transport that answers
  429 (\<^verbatim>\<open>Retry-After: 3\<close>) twice and then 200, the call raises "Failed after 2 attempts"
  after two requests: the 200 is never asked for, because each 429 has used one
  iteration of the loop.
\<close>

theorem rate_limited_twice_then_ok_counterexample:
  "(case make_request (na1_client ''RGAPI-key'' True 2)
           (script [Response (status_reply 429 (IntText 3) ''rate limited''),
                    Response (status_reply 429 (IntText 3) ''rate limited'')]
              (Response (json_reply (JDict [(''puuid'', JStr ''abc'')]))))
           ''https://na1.api.riotgames.com/x'' None world0 of
      (res, self', w') \<Rightarrow>
        res = Inl (RiotAPIError ''Failed after 2 attempts'')
        \<and> length (sent w') = 2)"
  by code_simp

text \<open>
  C1, amended. An attempt that is not the last one and receives 429, with a
  \<^verbatim>\<open>Retry-After\<close> header that is missing (then 5) or reads as an integer \<open>d\<close> of seconds
  that \<^verbatim>\<open>time.sleep\<close> accepts (\<open>0 \<le> d \<le> 9223372036\<close>), logs a warning, sleeps \<open>d\<close> seconds
  and goes on with the next iteration of the loop, \<open>attempt + 1\<close>: the 429 has used one of
  the \<open>max_retries\<close> attempts, as any retried outcome does. Whatever the transport
  answers, a call of \<^verbatim>\<open>_make_request\<close> sends at most \<open>max_retries\<close> requests, so retries
  after 429 are bounded by \<open>max_retries\<close>.
\<close>

theorem rate_limited_consumes_attempt:
  assumes "int (Suc a) < max_retries self"
      and "tr (length (sent w)) = Response r"
      and "status_code r = 429"
      and "retry_after_of r = Inr d"
      and "0 \<le> d" and "d \<le> 9223372036"
  shows "attempts self tr u ps a w =
           attempts self tr u ps (Suc a)
             (advance (seconds d)
                (log WARNING (''Rate limited. Waiting '' @ str_int d @ ''s...'') []
                   (w\<lparr>sent := sent w @ [\<lparr>req_url = u, req_headers = headers self,
                                          req_params = ps, req_timeout = 10\<rparr>]\<rparr>)))
         \<and> (retry_after_header r = Missing \<longrightarrow> d = 5)
         \<and> length (sent (snd (snd (make_request self tr' u' ps' w'))))
             \<le> length (sent w') + nat (max_retries self)"
proof (intro conjI impI)
  from assms(1) have lt: "int a < max_retries self" by simp
  show "attempts self tr u ps a w =
           attempts self tr u ps (Suc a)
             (advance (seconds d)
                (log WARNING (''Rate limited. Waiting '' @ str_int d @ ''s...'') []
                   (w\<lparr>sent := sent w @ [\<lparr>req_url = u, req_headers = headers self,
                                          req_params = ps, req_timeout = 10\<rparr>]\<rparr>)))"
    by (rule attempts_Continue
          [OF lt attempt_body_429 [where tr = tr and w = w, OF assms(2-6)]])
  show "d = 5" if "retry_after_header r = Missing"
    using that assms(4) by (simp add: retry_after_of_def)
  from make_request_sent [of self tr' u' ps' w']
  show "length (sent (snd (snd (make_request self tr' u' ps' w'))))
             \<le> length (sent w') + nat (max_retries self)"
    by auto
qed

theorem rate_limited_consumes_attempt_witness:
  "int (Suc 0) < max_retries (na1_client ''RGAPI-key'' False 3)
   \<and> script [Response (status_reply 429 (IntText 3) ''rate limited''),
              Response (status_reply 429 (IntText 3) ''rate limited'')]
        (Response (json_reply (JDict [(''puuid'', JStr ''abc'')]))) (length (sent world0))
       = Response (status_reply 429 (IntText 3) ''rate limited'')
   \<and> status_code (status_reply 429 (IntText 3) ''rate limited'') = 429
   \<and> retry_after_of (status_reply 429 (IntText 3) ''rate limited'') = Inr 3
   \<and> (0::int) \<le> 3 \<and> (3::int) \<le> 9223372036
   \<and> attempts (na1_client ''RGAPI-key'' False 3)
            (script [Response (status_reply 429 (IntText 3) ''rate limited''),
                     Response (status_reply 429 (IntText 3) ''rate limited'')]
               (Response (json_reply (JDict [(''puuid'', JStr ''abc'')]))))
            ''https://na1.api.riotgames.com/x'' None 0 world0
       = attempts (na1_client ''RGAPI-key'' False 3)
            (script [Response (status_reply 429 (IntText 3) ''rate limited''),
                     Response (status_reply 429 (IntText 3) ''rate limited'')]
               (Response (json_reply (JDict [(''puuid'', JStr ''abc'')]))))
            ''https://na1.api.riotgames.com/x'' None (Suc 0)
            (advance (seconds 3)
               (log WARNING (''Rate limited. Waiting '' @ str_int 3 @ ''s...'') []
                  (world0\<lparr>sent := sent world0 @
                     [\<lparr>req_url = ''https://na1.api.riotgames.com/x'',
                       req_headers = headers (na1_client ''RGAPI-key'' False 3),
                       req_params = None, req_timeout = 10\<rparr>]\<rparr>)))
   \<and> fst (attempts (na1_client ''RGAPI-key'' False 3)
            (script [Response (status_reply 429 (IntText 3) ''rate limited''),
                     Response (status_reply 429 (IntText 3) ''rate limited'')]
               (Response (json_reply (JDict [(''puuid'', JStr ''abc'')]))))
            ''https://na1.api.riotgames.com/x'' None 0 world0)
       = Inr (JDict [(''puuid'', JStr ''abc'')])
   \<and> slept (snd (attempts (na1_client ''RGAPI-key'' False 3)
            (script [Response (status_reply 429 (IntText 3) ''rate limited''),
                     Response (status_reply 429 (IntText 3) ''rate limited'')]
               (Response (json_reply (JDict [(''puuid'', JStr ''abc'')]))))
            ''https://na1.api.riotgames.com/x'' None 0 world0))
       = [seconds 3, seconds 3]"
proof -
  let ?c = "na1_client ''RGAPI-key'' False 3"
  let ?r = "status_reply 429 (IntText 3) ''rate limited''"
  let ?tr = "script [Response ?r, Response ?r]
               (Response (json_reply (JDict [(''puuid'', JStr ''abc'')])))"
  let ?u = "''https://na1.api.riotgames.com/x''"
  let ?w1 = "advance (seconds 3)
               (log WARNING (''Rate limited. Waiting '' @ str_int 3 @ ''s...'') []
                  (world0\<lparr>sent := sent world0 @
                     [\<lparr>req_url = ?u, req_headers = headers ?c,
                       req_params = None, req_timeout = 10\<rparr>]\<rparr>))"
  have h1: "int (Suc 0) < max_retries ?c" by (simp add: na1_client_def)
  have h2: "?tr (length (sent world0)) = Response ?r" by (simp add: script_def world0_def)
  have h3: "status_code ?r = 429" by (simp add: status_reply_def)
  have h4: "retry_after_of ?r = Inr 3" by (simp add: status_reply_def retry_after_of_def)
  have h5: "(0::int) \<le> 3" and h6: "(3::int) \<le> 9223372036" by simp_all
  note step = rate_limited_consumes_attempt
                [where tr = ?tr and w = world0 and u = ?u and ps = None,
                 OF h1 h2 h3 h4 h5 h6, THEN conjunct1]
  have rest: "fst (attempts ?c ?tr ?u None (Suc 0) ?w1) = Inr (JDict [(''puuid'', JStr ''abc'')])"
    by code_simp
  have rest2: "slept (snd (attempts ?c ?tr ?u None (Suc 0) ?w1)) = [seconds 3, seconds 3]"
    by code_simp
  from h1 h2 h3 h4 h5 h6 step rest rest2 show ?thesis by simp
qed


section \<open>The parameters of the match list request\<close>

lemma match_ids_params_lookup:
  "map_of (match_ids_params start count queue type) ''count'' = Some (min count 100)"
  "map_of (match_ids_params start count queue type) ''start'' = Some start"
  by (simp_all add: match_ids_params_def Let_def split: option.splits)

lemma match_ids_call_sent:
  "\<exists>k. sent (snd (snd (match_ids_call as_main self tr ptext pprefix start count queue type w))) =
     sent w @ replicate k
       \<lparr>req_url = regional_url self @ ''/lol/match/v5/matches/by-puuid/'' @ ptext @ ''/ids'',
        req_headers = headers self,
        req_params = Some (match_ids_params start count queue type),
        req_timeout = 10\<rparr>"
proof -
  let ?u = "regional_url self @ ''/lol/match/v5/matches/by-puuid/'' @ ptext @ ''/ids''"
  let ?ps = "Some (match_ids_params start count queue type)"
  let ?w0 = "log INFO
                 (''Fetching match IDs for PUUID: '' @ pprefix @ ''... (start=''
                    @ str_int start @ '', count='' @ str_int count @ '')'') [] w"
  obtain res self' w' where m: "make_request self tr ?u ?ps ?w0 = (res, self', w')"
    by (cases "make_request self tr ?u ?ps ?w0") auto
  from make_request_sent [of self tr ?u ?ps ?w0] m obtain k where
    "sent w' = sent w @ replicate k
       \<lparr>req_url = ?u, req_headers = headers self, req_params = ?ps, req_timeout = 10\<rparr>"
    by auto
  moreover have "sent (snd (snd (match_ids_call as_main self tr ptext pprefix start count queue type w))) = sent w'"
    using m by (simp add: match_ids_call_def Let_def split: sum.splits json.splits)
  ultimately show ?thesis by auto
qed

lemma get_match_ids_sent:
  "\<exists>k. sent (snd (snd (get_match_ids as_main self tr puuid start count queue type w))) =
     sent w @ replicate k
       \<lparr>req_url = regional_url self @ ''/lol/match/v5/matches/by-puuid/'' @ puuid @ ''/ids'',
        req_headers = headers self,
        req_params = Some (match_ids_params start count queue type),
        req_timeout = 10\<rparr>"
  unfolding get_match_ids_def by (rule match_ids_call_sent)

text \<open>
  C10. Every request that \<^verbatim>\<open>get_match_ids\<close> sends carries \<open>count = min(count, 100)\<close> and
  the \<open>start\<close> it was given, whatever the other arguments, the transport and the number
  of attempts.
\<close>

theorem get_match_ids_caps_count:
  "\<forall>rq \<in> set (drop (length (sent w))
                (sent (snd (snd (get_match_ids as_main self tr puuid start count queue type w))))).
     \<exists>ps. req_params rq = Some ps
          \<and> map_of ps ''count'' = Some (min count 100)
          \<and> map_of ps ''start'' = Some start"
proof -
  from get_match_ids_sent [of as_main self tr puuid start count queue type w]
  obtain k where
    "drop (length (sent w))
       (sent (snd (snd (get_match_ids as_main self tr puuid start count queue type w)))) =
     replicate k
       \<lparr>req_url = regional_url self @ ''/lol/match/v5/matches/by-puuid/'' @ puuid @ ''/ids'',
        req_headers = headers self,
        req_params = Some (match_ids_params start count queue type),
        req_timeout = 10\<rparr>"
    by auto
  then show ?thesis by (auto simp: match_ids_params_lookup)
qed


theorem get_match_ids_caps_count_witness:
  "\<lparr>req_url = ''https://americas.api.riotgames.com/lol/match/v5/matches/by-puuid/puuid-1/ids'',
    req_headers = [(''X-Riot-Token'', ''RGAPI-key''), (''Accept'', ''application/json'')],
    req_params = Some [(''start'', 5), (''count'', 100), (''queue'', 420)],
    req_timeout = 10\<rparr>
     \<in> set (drop (length (sent world0))
               (sent (snd (snd (get_match_ids False (na1_client ''RGAPI-key'' True 3)
                  (script [] (Response (json_reply (JList [JStr ''NA1_1'', JStr ''NA1_2'']))))
                  ''puuid-1'' 5 250 (Some 420) None world0)))))
   \<and> (\<exists>ps. req_params
              \<lparr>req_url = ''https://americas.api.riotgames.com/lol/match/v5/matches/by-puuid/puuid-1/ids'',
                req_headers = [(''X-Riot-Token'', ''RGAPI-key''), (''Accept'', ''application/json'')],
                req_params = Some [(''start'', 5), (''count'', 100), (''queue'', 420)],
                req_timeout = 10\<rparr> = Some ps
          \<and> map_of ps ''count'' = Some 100
          \<and> map_of ps ''start'' = Some 5)"
proof -
  let ?rq = "\<lparr>req_url = ''https://americas.api.riotgames.com/lol/match/v5/matches/by-puuid/puuid-1/ids'',
    req_headers = [(''X-Riot-Token'', ''RGAPI-key''), (''Accept'', ''application/json'')],
    req_params = Some [(''start'', 5::int), (''count'', 100), (''queue'', 420)],
    req_timeout = 10\<rparr>"
  have mem: "?rq \<in> set (drop (length (sent world0))
               (sent (snd (snd (get_match_ids False (na1_client ''RGAPI-key'' True 3)
                  (script [] (Response (json_reply (JList [JStr ''NA1_1'', JStr ''NA1_2'']))))
                  ''puuid-1'' 5 250 (Some 420) None world0)))))"
    by code_simp
  from get_match_ids_caps_count [rule_format, OF mem] mem show ?thesis by simp
qed

end
